theory Spec2Isabelle
  imports Main
begin

section \<open>Exceptions and status reporting\<close>

text \<open>
  The module \<^verbatim>\<open>plugin_manager_module.py\<close> reports progress through an optional callback
  and the module logger, and turns every \<^verbatim>\<open>Exception\<close> into a return value.  An exception
  is modelled by its class, as far as the handlers of the module tell classes apart, and
  the text that \<^verbatim>\<open>str(e)\<close> gives.  Only subclasses of \<^verbatim>\<open>Exception\<close> are modelled.
\<close>

datatype exn_class =
  RequestException | JSONDecodeError | BadZipFile | OSError
  | ValueError | TypeError | AttributeError | OtherException

datatype exn = Exn (exn_kind: exn_class) (exn_text: string)

datatype log_level = LogError | LogWarning | LogInfo | LogDebug

text \<open>
  What an operation does to the outside besides the file system: it calls the status
  callback with a message and a message type, or it writes to the logger.
\<close>

datatype event =
  Called string "string option"
  | Logged log_level string

text \<open>
  A status callback takes the message and the message type; it returns normally
  (\<open>None\<close>) or raises (\<open>Some e\<close>).
\<close>

type_synonym callback = "string \<Rightarrow> string option \<Rightarrow> exn option"

definition status_update :: "callback option \<Rightarrow> string \<Rightarrow> string option \<Rightarrow> event list" where
  "status_update callback message msg_type =
     (case callback of
        Some cb \<Rightarrow>
          (case cb message msg_type of
             None \<Rightarrow> [Called message msg_type]
           | Some e \<Rightarrow>
               [Called message msg_type,
                Logged LogError (''Error in status callback: '' @ exn_text e)])
      | None \<Rightarrow>
          (if msg_type = Some ''error'' then [Logged LogError message]
           else if msg_type = Some ''warning'' then [Logged LogWarning message]
           else [Logged LogInfo message]))"

text \<open>An event is an error report when it has error severity, on either channel.\<close>

fun is_error_event :: "event \<Rightarrow> bool" where
  "is_error_event (Called m t) = (t = Some ''error'')"
| "is_error_event (Logged l m) = (l = LogError)"

definition reports_error :: "event list \<Rightarrow> bool" where
  "reports_error tr = list_ex is_error_event tr"

text \<open>Decimal rendering of a length inside an f-string.\<close>

definition digit_char :: "nat \<Rightarrow> char" where
  "digit_char d = char_of (48 + d)"

function show_nat :: "nat \<Rightarrow> string" where
  "show_nat n = (if n < 10 then [digit_char n] else show_nat (n div 10) @ [digit_char (n mod 10)])"
  by pat_completeness auto
termination
  by (relation "measure id") auto

section \<open>The manifest fetcher\<close>

text \<open>
  \<^verbatim>\<open>response.json()\<close> gives a decoded JSON value.  Objects are association lists in
  insertion order, as a Python \<^verbatim>\<open>dict\<close> keeps them.
\<close>

datatype json =
  JNull | JBool bool | JNum int | JStr string
  | JList "json list" | JObj "(string \<times> json) list"

fun is_substring :: "string \<Rightarrow> string \<Rightarrow> bool" where
  "is_substring k [] = (k = [])"
| "is_substring k (c # cs) = (take (length k) (c # cs) = k \<or> is_substring k cs)"

text \<open>
  Python's \<^verbatim>\<open>key in plugin_entry\<close>: a key of a dict, a substring of a str, an element of
  a list, and a \<^verbatim>\<open>TypeError\<close> on \<^verbatim>\<open>None\<close>, a bool or a number.
\<close>

fun py_in :: "string \<Rightarrow> json \<Rightarrow> exn + bool" where
  "py_in key (JObj kvs) = Inr (key \<in> set (map fst kvs))"
| "py_in key (JStr s) = Inr (is_substring key s)"
| "py_in key (JList xs) = Inr (JStr key \<in> set xs)"
| "py_in key _ = Inl (Exn TypeError ''argument is not iterable'')"

text \<open>\<^verbatim>\<open>all(key in plugin_entry for key in keys)\<close> stops at the first \<^verbatim>\<open>False\<close>.\<close>

fun all_keys_in :: "json \<Rightarrow> string list \<Rightarrow> exn + bool" where
  "all_keys_in entry [] = Inr True"
| "all_keys_in entry (k # ks) =
     (case py_in k entry of
        Inl e \<Rightarrow> Inl e
      | Inr False \<Rightarrow> Inr False
      | Inr True \<Rightarrow> all_keys_in entry ks)"

definition required_keys :: "string list" where
  "required_keys = [''id'', ''name'', ''version'', ''author'', ''description'', ''downloadUrl'']"

text \<open>\<^verbatim>\<open>setdefault\<close> and \<^verbatim>\<open>get\<close> exist on a dict only.\<close>

fun setdefault :: "json \<Rightarrow> string \<Rightarrow> json \<Rightarrow> exn + json" where
  "setdefault (JObj kvs) key d =
     Inr (if key \<in> set (map fst kvs) then JObj kvs else JObj (kvs @ [(key, d)]))"
| "setdefault _ key d = Inl (Exn AttributeError ''object has no attribute setdefault'')"

fun py_get :: "json \<Rightarrow> string \<Rightarrow> json \<Rightarrow> exn + json" where
  "py_get (JObj kvs) key d = Inr (case map_of kvs key of Some v \<Rightarrow> v | None \<Rightarrow> d)"
| "py_get _ key d = Inl (Exn AttributeError ''object has no attribute get'')"

text \<open>
  The loop over \<^verbatim>\<open>plugins_data\<close> (lines 101 to 107), with \<^verbatim>\<open>valid_plugins\<close> and the
  events so far as accumulators.  \<open>render\<close> is \<^verbatim>\<open>str\<close> on a decoded value, used by the
  f-string of the warning only.
\<close>

fun validate_entries ::
  "(json \<Rightarrow> string) \<Rightarrow> json list \<Rightarrow> json list \<Rightarrow> event list \<Rightarrow> (exn + json list) \<times> event list"
where
  "validate_entries render [] valid_plugins tr = (Inr valid_plugins, tr)"
| "validate_entries render (plugin_entry # rest) valid_plugins tr =
     (case all_keys_in plugin_entry required_keys of
        Inl e \<Rightarrow> (Inl e, tr)
      | Inr True \<Rightarrow>
          (case setdefault plugin_entry ''edmcCompatibility'' JNull of
             Inl e \<Rightarrow> (Inl e, tr)
           | Inr e1 \<Rightarrow>
               (case setdefault e1 ''repositoryUrl'' JNull of
                  Inl e \<Rightarrow> (Inl e, tr)
                | Inr e2 \<Rightarrow> validate_entries render rest (valid_plugins @ [e2]) tr))
      | Inr False \<Rightarrow>
          (case py_get plugin_entry ''id'' (JStr ''Unknown ID'') of
             Inl e \<Rightarrow> (Inl e, tr)
           | Inr v \<Rightarrow>
               validate_entries render rest valid_plugins
                 (tr @ [Logged LogWarning
                          (''Skipping invalid plugin entry in manifest: '' @ render v)])))"

text \<open>
  What the network gives: \<^verbatim>\<open>requests.get\<close> raises, or returns a response with a status
  code and a body that \<^verbatim>\<open>json()\<close> decodes or rejects.  \<^verbatim>\<open>raise_for_status\<close> raises an
  \<^verbatim>\<open>HTTPError\<close>, a \<^verbatim>\<open>RequestException\<close>, for the codes 400 to 599 and no other.
\<close>

record response =
  status_code :: nat

record json_response = response +
  json_body :: "exn + json"

definition raise_for_status :: "'a response_scheme \<Rightarrow> exn option" where
  "raise_for_status r =
     (if 400 \<le> status_code r \<and> status_code r < 600
      then Some (Exn RequestException ''HTTP error'') else None)"

text \<open>The \<^verbatim>\<open>try\<close> block of \<^verbatim>\<open>fetch_available_plugins\<close>, lines 92 to 110.\<close>

definition fetch_try ::
  "(json \<Rightarrow> string) \<Rightarrow> callback option \<Rightarrow> exn + json_response \<Rightarrow> (exn + json list) \<times> event list"
where
  "fetch_try render cb got =
     (case got of
        Inl e \<Rightarrow> (Inl e, [])
      | Inr resp \<Rightarrow>
          (case raise_for_status resp of
             Some e \<Rightarrow> (Inl e, [])
           | None \<Rightarrow>
               (case json_body resp of
                  Inl e \<Rightarrow> (Inl e, [])
                | Inr plugins_data \<Rightarrow>
                    (case plugins_data of
                       JList entries \<Rightarrow>
                         (case validate_entries render entries [] [] of
                            (Inl e, tr) \<Rightarrow> (Inl e, tr)
                          | (Inr valid_plugins, tr) \<Rightarrow>
                              (Inr valid_plugins,
                               tr @ status_update cb
                                 (''Successfully fetched '' @ show_nat (length valid_plugins)
                                    @ '' plugins.'') (Some ''info'')))
                     | _ \<Rightarrow>
                         (Inr [],
                          status_update cb ''Plugin manifest is not a valid list.''
                            (Some ''error''))))))"

text \<open>The handlers of lines 111 to 117: each reports an error and falls through to \<^verbatim>\<open>return []\<close>.\<close>

definition fetch_handler :: "callback option \<Rightarrow> exn \<Rightarrow> event list" where
  "fetch_handler cb e =
     (if exn_kind e = RequestException then
        status_update cb (''Network error fetching plugin manifest: '' @ exn_text e) (Some ''error'')
      else if exn_kind e = JSONDecodeError then
        status_update cb (''Error decoding plugin manifest JSON: '' @ exn_text e) (Some ''error'')
      else
        status_update cb
          (''An unexpected error occurred while fetching plugins: '' @ exn_text e) (Some ''error''))"

definition fetch_available_plugins ::
  "(json \<Rightarrow> string) \<Rightarrow> string \<Rightarrow> callback option \<Rightarrow> exn + json_response \<Rightarrow> json list \<times> event list"
where
  "fetch_available_plugins render manifest_url cb got =
     (if manifest_url = [] then
        ([], status_update cb ''Plugin manifest URL is not configured.'' (Some ''error''))
      else
        (let tr0 = status_update cb
                     (''Fetching plugin manifest from '' @ manifest_url @ ''...'') (Some ''info'')
         in case fetch_try render cb got of
              (Inr plugins, tr) \<Rightarrow> (plugins, tr0 @ tr)
            | (Inl e, tr) \<Rightarrow> ([], tr0 @ tr @ fetch_handler cb e)))"

section \<open>The plugin root and the installed-set scanner\<close>

text \<open>
  A file system object is a regular file with its content or a directory with its
  children, in the order \<^verbatim>\<open>iterdir\<close> yields them.  The functions below work on the
  children of the plugin root, keyed by folder name: a plugin id or folder name is one
  path component under the plugin root.
\<close>

datatype node = File string | Dir "(string \<times> node) list"

type_synonym entries = "(string \<times> node) list"

definition names :: "entries \<Rightarrow> string set" where
  "names fs = set (map fst fs)"

text \<open>\<^verbatim>\<open>Path.exists\<close>, \<^verbatim>\<open>Path.is_dir\<close> and \<^verbatim>\<open>Path.is_file\<close> of a child of the directory.\<close>

definition path_exists :: "entries \<Rightarrow> string \<Rightarrow> bool" where
  "path_exists fs n = (map_of fs n \<noteq> None)"

definition is_dir :: "entries \<Rightarrow> string \<Rightarrow> bool" where
  "is_dir fs n = (case map_of fs n of Some (Dir c) \<Rightarrow> True | _ \<Rightarrow> False)"

definition is_file :: "entries \<Rightarrow> string \<Rightarrow> bool" where
  "is_file fs n = (case map_of fs n of Some (File d) \<Rightarrow> True | _ \<Rightarrow> False)"

definition set_entry :: "entries \<Rightarrow> string \<Rightarrow> node \<Rightarrow> entries" where
  "set_entry fs n v =
     (if path_exists fs n then map (\<lambda>(k, x). if k = n then (k, v) else (k, x)) fs
      else fs @ [(n, v)])"

definition del_entry :: "entries \<Rightarrow> string \<Rightarrow> entries" where
  "del_entry fs n = filter (\<lambda>(k, x). k \<noteq> n) fs"

text \<open>\<^verbatim>\<open>Path.rename\<close> of one child to a name that is free: the object keeps its place.\<close>

definition rename_entry :: "entries \<Rightarrow> string \<Rightarrow> string \<Rightarrow> entries" where
  "rename_entry fs old new = map (\<lambda>(k, x). if k = old then (new, x) else (k, x)) fs"

definition disabled_suffix :: string where
  "disabled_suffix = ''.disabled''"

definition endswith :: "string \<Rightarrow> string \<Rightarrow> bool" where
  "endswith s suf = (length suf \<le> length s \<and> drop (length s - length suf) s = suf)"

record installed_plugin_info =
  ip_name :: string
  ip_status :: string
  ip_path :: string

text \<open>
  The body of the loop of \<^verbatim>\<open>get_installed_plugins\<close> for one child (lines 134 to 148):
  the entry it appends, if any, and what it logs.  \<open>ip_path\<close> holds the folder name of the
  child under the plugin root.
\<close>

definition scan_item :: "string \<times> node \<Rightarrow> installed_plugin_info list \<times> event list" where
  "scan_item item =
     (case snd item of
        File d \<Rightarrow> ([], [])
      | Dir children \<Rightarrow>
          (let nm = fst item;
               (nm', st) = (if endswith nm disabled_suffix
                            then (take (length nm - length disabled_suffix) nm, ''disabled'')
                            else (nm, ''enabled''))
           in if is_file children ''load.py''
              then ([\<lparr>ip_name = nm', ip_status = st, ip_path = fst item\<rparr>], [])
              else ([], [Logged LogDebug
                           (''Directory '' @ [CHR 0x27] @ fst item @ [CHR 0x27]
                              @ '' in plugins folder does not contain a load.py, skipping.'')])))"

fun scan_items ::
  "entries \<Rightarrow> installed_plugin_info list \<Rightarrow> event list \<Rightarrow> installed_plugin_info list \<times> event list"
where
  "scan_items [] installed_plugins tr = (installed_plugins, tr)"
| "scan_items (item # rest) installed_plugins tr =
     (case scan_item item of
        (found, evs) \<Rightarrow> scan_items rest (installed_plugins @ found) (tr @ evs))"

text \<open>
  \<open>root\<close> is what \<^verbatim>\<open>config.plugin_dir_path\<close> points at: nothing, a file or a directory.
\<close>

definition get_installed_plugins ::
  "string \<Rightarrow> node option \<Rightarrow> installed_plugin_info list \<times> event list"
where
  "get_installed_plugins plugin_dir root =
     (case root of
        Some (Dir items) \<Rightarrow> scan_items items [] []
      | _ \<Rightarrow> ([], [Logged LogWarning (''Plugin directory not found: '' @ plugin_dir)]))"

section \<open>Remove, enable, disable\<close>

text \<open>
  Each operation takes the children of the plugin root and returns its result, the
  children afterwards and the events.  \<^verbatim>\<open>shutil.rmtree\<close> and \<^verbatim>\<open>Path.rename\<close> can fail
  for reasons outside the model (permissions, open files); such a failure is an
  argument.  A failing \<^verbatim>\<open>rmtree\<close> comes with what it left of the directory.
\<close>

definition quoted :: "string \<Rightarrow> string" where
  "quoted s = [CHR 0x27] @ s @ [CHR 0x27]"

definition remove_plugin ::
  "entries \<Rightarrow> string \<Rightarrow> callback option \<Rightarrow> (exn \<times> entries) option \<Rightarrow> bool \<times> entries \<times> event list"
where
  "remove_plugin fs plugin_folder_name cb rmtree_fails =
     (let tr0 = status_update cb
                  (''Removing plugin folder '' @ quoted plugin_folder_name @ ''...'') (Some ''info'')
      in if \<not> is_dir fs plugin_folder_name then
           (False, fs,
            tr0 @ status_update cb
              (''Plugin folder '' @ quoted plugin_folder_name @ '' not found or is not a directory.'')
              (Some ''error''))
         else
           (case rmtree_fails of
              None \<Rightarrow>
                (True, del_entry fs plugin_folder_name,
                 tr0 @ status_update cb
                         (''Plugin '' @ quoted plugin_folder_name @ '' removed successfully.'')
                         (Some ''info'')
                     @ status_update cb ''Please restart EDMC for changes to take effect.''
                         (Some ''warning''))
            | Some (e, left) \<Rightarrow>
                (False, set_entry fs plugin_folder_name (Dir left),
                 tr0 @ (if exn_kind e = OSError then
                          status_update cb
                            (''Error removing plugin '' @ quoted plugin_folder_name @ '': ''
                               @ exn_text e) (Some ''error'')
                        else
                          status_update cb
                            (''An unexpected error occurred during plugin removal: '' @ exn_text e)
                            (Some ''error'')))))"

text \<open>\<^verbatim>\<open>Path.rename\<close> raises an \<^verbatim>\<open>OSError\<close> only; \<open>rename_fails\<close> is its text.\<close>

definition enable_plugin ::
  "entries \<Rightarrow> string \<Rightarrow> callback option \<Rightarrow> string option \<Rightarrow> bool \<times> entries \<times> event list"
where
  "enable_plugin fs plugin_base_name cb rename_fails =
     (let disabled_path = plugin_base_name @ disabled_suffix;
          enabled_path = plugin_base_name;
          tr0 = status_update cb
                  (''Enabling plugin '' @ quoted plugin_base_name @ ''...'') (Some ''info'')
      in if \<not> is_dir fs disabled_path then
           (False, fs,
            tr0 @ status_update cb
              (''Disabled plugin folder '' @ quoted disabled_path @ '' not found.'') (Some ''error''))
         else if path_exists fs enabled_path then
           (False, fs,
            tr0 @ status_update cb
              (''Enabled plugin folder '' @ quoted enabled_path
                 @ '' already exists. Cannot enable.'') (Some ''error''))
         else
           (case rename_fails of
              None \<Rightarrow>
                (True, rename_entry fs disabled_path enabled_path,
                 tr0 @ status_update cb
                         (''Plugin '' @ quoted plugin_base_name @ '' enabled successfully.'')
                         (Some ''info'')
                     @ status_update cb ''Please restart EDMC for changes to take effect.''
                         (Some ''warning''))
            | Some txt \<Rightarrow>
                (False, fs,
                 tr0 @ status_update cb
                         (''Error enabling plugin '' @ quoted plugin_base_name @ '': '' @ txt)
                         (Some ''error''))))"

definition disable_plugin ::
  "entries \<Rightarrow> string \<Rightarrow> callback option \<Rightarrow> string option \<Rightarrow> bool \<times> entries \<times> event list"
where
  "disable_plugin fs plugin_base_name cb rename_fails =
     (let enabled_path = plugin_base_name;
          disabled_path = plugin_base_name @ disabled_suffix;
          tr0 = status_update cb
                  (''Disabling plugin '' @ quoted plugin_base_name @ ''...'') (Some ''info'')
      in if \<not> is_dir fs enabled_path then
           (False, fs,
            tr0 @ status_update cb
              (''Plugin folder '' @ quoted enabled_path @ '' not found.'') (Some ''error''))
         else if path_exists fs disabled_path then
           (False, fs,
            tr0 @ status_update cb
              (''Disabled plugin folder '' @ quoted disabled_path
                 @ '' already exists. Cannot disable.'') (Some ''error''))
         else
           (case rename_fails of
              None \<Rightarrow>
                (True, rename_entry fs enabled_path disabled_path,
                 tr0 @ status_update cb
                         (''Plugin '' @ quoted plugin_base_name @ '' disabled successfully.'')
                         (Some ''info'')
                     @ status_update cb ''Please restart EDMC for changes to take effect.''
                         (Some ''warning''))
            | Some txt \<Rightarrow>
                (False, fs,
                 tr0 @ status_update cb
                         (''Error disabling plugin '' @ quoted plugin_base_name @ '': '' @ txt)
                         (Some ''error''))))"

section \<open>Path names\<close>

text \<open>
  \<^verbatim>\<open>PurePath.suffix\<close> and \<^verbatim>\<open>PurePath.with_suffix\<close> of the standard library, on the final
  component of a path: the suffix starts at the last dot, unless that dot is the first or
  the last character of the name.
\<close>

definition rfind :: "char \<Rightarrow> string \<Rightarrow> nat option" where
  "rfind c s =
     (let k = length (takeWhile (\<lambda>x. x \<noteq> c) (rev s))
      in if k = length s then None else Some (length s - 1 - k))"

definition name_suffix :: "string \<Rightarrow> string" where
  "name_suffix nm =
     (case rfind CHR ''.'' nm of
        None \<Rightarrow> []
      | Some i \<Rightarrow> if 0 < i \<and> i < length nm - 1 then drop i nm else [])"

definition name_with_suffix :: "string \<Rightarrow> string \<Rightarrow> exn + string" where
  "name_with_suffix nm suffix =
     (if CHR ''/'' \<in> set suffix then Inl (Exn ValueError ''Invalid suffix'')
      else if (suffix \<noteq> [] \<and> take 1 suffix \<noteq> ''.'') \<or> suffix = ''.''
        then Inl (Exn ValueError ''Invalid suffix'')
      else if nm = [] then Inl (Exn ValueError ''path has an empty name'')
      else (let old_suffix = name_suffix nm
            in if old_suffix = [] then Inr (nm @ suffix)
               else Inr (take (length nm - length old_suffix) nm @ suffix)))"

text \<open>
  A pure path in the POSIX flavour: the anchor (empty for a relative path) and the
  components.  Parsing a string splits it at the slashes and drops empty components and
  single dots; joining with an absolute path gives that path.
\<close>

record pure_path =
  anchor :: string
  parts :: "string list"

fun split_on :: "char \<Rightarrow> string \<Rightarrow> string list" where
  "split_on c [] = [[]]"
| "split_on c (x # xs) =
     (if x = c then [] # split_on c xs
      else (case split_on c xs of
              p # ps \<Rightarrow> (x # p) # ps
            | [] \<Rightarrow> [[x]]))"

definition parse_path :: "string \<Rightarrow> pure_path" where
  "parse_path s =
     \<lparr>anchor = (if take 2 s = ''//'' \<and> take 3 s \<noteq> ''///'' then ''//''
                else if take 1 s = ''/'' then ''/'' else []),
      parts = filter (\<lambda>p. p \<noteq> [] \<and> p \<noteq> ''.'') (split_on CHR ''/'' s)\<rparr>"

definition joinpath :: "pure_path \<Rightarrow> string \<Rightarrow> pure_path" where
  "joinpath p s =
     (let q = parse_path s
      in if anchor q \<noteq> [] then q else p\<lparr>parts := parts p @ parts q\<rparr>)"

definition path_name :: "pure_path \<Rightarrow> string" where
  "path_name p = (if parts p = [] then [] else last (parts p))"

definition suffix :: "pure_path \<Rightarrow> string" where
  "suffix p = name_suffix (path_name p)"

definition with_suffix :: "pure_path \<Rightarrow> string \<Rightarrow> exn + pure_path" where
  "with_suffix p suf =
     (case name_with_suffix (path_name p) suf of
        Inl e \<Rightarrow> Inl e
      | Inr n \<Rightarrow> Inr (p\<lparr>parts := butlast (parts p) @ [n]\<rparr>))"

text \<open>
  The disabled sibling as line 169 of \<^verbatim>\<open>install_plugin\<close> builds it, from
  \<^verbatim>\<open>install_path = plugin_dir / plugin_id\<close>.
\<close>

definition install_disabled_path :: "pure_path \<Rightarrow> string \<Rightarrow> exn + pure_path" where
  "install_disabled_path plugin_dir plugin_id =
     (let install_path = joinpath plugin_dir plugin_id
      in with_suffix install_path (suffix install_path @ ''.disabled''))"

text \<open>
  The disabled sibling in the words of the specification, \<^verbatim>\<open>{plugin_root}/{id}.disabled\<close>:
  the suffix appended to the id.  Lines 253 and 281 of \<^verbatim>\<open>enable_plugin\<close> and
  \<^verbatim>\<open>disable_plugin\<close> build it this way.
\<close>

definition disabled_sibling_spec :: "pure_path \<Rightarrow> string \<Rightarrow> pure_path" where
  "disabled_sibling_spec plugin_dir plugin_id = joinpath plugin_dir (plugin_id @ ''.disabled'')"

text \<open>An id that is one component of a path: not empty, without a slash, not a single dot.\<close>

definition path_segment :: "string \<Rightarrow> bool" where
  "path_segment s = (s \<noteq> [] \<and> CHR ''/'' \<notin> set s \<and> s \<noteq> ''.'')"

section \<open>Install\<close>

text \<open>The fields of a \<^verbatim>\<open>PluginInfo\<close> that \<^verbatim>\<open>install_plugin\<close> reads: id, name and downloadUrl.\<close>

record plugin_info =
  plugin_id :: string
  plugin_name :: string
  download_url :: string

text \<open>
  The streamed download: the status code, the chunks \<^verbatim>\<open>iter_content\<close> delivers, and the
  exception that ends the stream early, if any.
\<close>

record stream_response = response +
  chunks :: "string list"
  stream_error :: "exn option"

text \<open>A member of a ZIP archive; the name of a directory member ends in a slash.\<close>

record zip_member =
  filename :: string
  data :: string

text \<open>
  What lies outside the program during an install: the answer of the server, the ZIP
  decoder (\<open>None\<close> when the bytes are not an archive), and a failure of the extraction
  for an outside reason (a full disk, a corrupt member): \<open>Some (k, e)\<close> raises \<open>e\<close> once
  \<open>k\<close> members are extracted.
\<close>

record install_env =
  download :: "exn + stream_response"
  read_zip :: "string \<Rightarrow> zip_member list option"
  extract_fails :: "(nat \<times> exn) option"

definition top_level :: "string \<Rightarrow> string" where
  "top_level member = takeWhile (\<lambda>c. c \<noteq> CHR ''/'') member"

definition rstrip_slash :: "string \<Rightarrow> string" where
  "rstrip_slash s = rev (dropWhile (\<lambda>c. c = CHR ''/'') (rev s))"

definition top_level_members :: "zip_member list \<Rightarrow> string list" where
  "top_level_members members = remdups (map (\<lambda>m. top_level (filename m)) members)"

text \<open>
  \<^verbatim>\<open>ZipFile._extract_member\<close>: the member name loses empty components, dots and double
  dots; the upper directories are created; a directory member is created unless it is
  there, a file member is written, over a file of that name if there is one.
\<close>

definition member_parts :: "zip_member \<Rightarrow> string list" where
  "member_parts m =
     filter (\<lambda>p. p \<noteq> [] \<and> p \<noteq> ''.'' \<and> p \<noteq> ''..'') (split_on CHR ''/'' (filename m))"

definition member_is_dir :: "zip_member \<Rightarrow> bool" where
  "member_is_dir m = endswith (filename m) ''/''"

fun put_member :: "bool \<Rightarrow> string \<Rightarrow> string list \<Rightarrow> entries \<Rightarrow> exn + entries" where
  "put_member isd d [] es = (if isd then Inr es else Inl (Exn OSError ''Is a directory''))"
| "put_member isd d [p] es =
     (case map_of es p of
        None \<Rightarrow> Inr (es @ [(p, if isd then Dir [] else File d)])
      | Some (Dir c) \<Rightarrow> (if isd then Inr es else Inl (Exn OSError ''Is a directory''))
      | Some (File old) \<Rightarrow>
          (if isd then Inl (Exn OSError ''File exists'') else Inr (set_entry es p (File d))))"
| "put_member isd d (p # q # ps) es =
     (case map_of es p of
        None \<Rightarrow>
          (case put_member isd d (q # ps) [] of
             Inl e \<Rightarrow> Inl e
           | Inr c' \<Rightarrow> Inr (es @ [(p, Dir c')]))
      | Some (Dir c) \<Rightarrow>
          (case put_member isd d (q # ps) c of
             Inl e \<Rightarrow> Inl e
           | Inr c' \<Rightarrow> Inr (set_entry es p (Dir c')))
      | Some (File old) \<Rightarrow> Inl (Exn OSError ''Not a directory''))"

definition extract_member :: "zip_member \<Rightarrow> entries \<Rightarrow> exn + entries" where
  "extract_member m es = put_member (member_is_dir m) (data m) (member_parts m) es"

text \<open>\<^verbatim>\<open>ZipFile.extractall\<close> into a directory with the children \<open>es\<close>.\<close>

fun extract_all :: "zip_member list \<Rightarrow> (nat \<times> exn) option \<Rightarrow> entries \<Rightarrow> exn option \<times> entries" where
  "extract_all [] f es = (None, es)"
| "extract_all (m # ms) f es =
     (case f of
        None \<Rightarrow>
          (case extract_member m es of
             Inl e \<Rightarrow> (Some e, es)
           | Inr es' \<Rightarrow> extract_all ms None es')
      | Some (k, e) \<Rightarrow>
          (if k = 0 then (Some e, es)
           else (case extract_member m es of
                   Inl e' \<Rightarrow> (Some e', es)
                 | Inr es' \<Rightarrow> extract_all ms (Some (k - 1, e)) es')))"

text \<open>
  \<^verbatim>\<open>Path.mkdir(parents=True, exist_ok=True)\<close> for a child of the plugin root, and
  \<^verbatim>\<open>extractall\<close> into such a child, which \<^verbatim>\<open>mkdir\<close> has made a directory.
\<close>

definition mkdir_exist_ok :: "entries \<Rightarrow> string \<Rightarrow> exn + entries" where
  "mkdir_exist_ok fs n =
     (case map_of fs n of
        None \<Rightarrow> Inr (fs @ [(n, Dir [])])
      | Some (Dir c) \<Rightarrow> Inr fs
      | Some (File d) \<Rightarrow> Inl (Exn OSError ''File exists''))"

definition extractall ::
  "entries \<Rightarrow> string \<Rightarrow> zip_member list \<Rightarrow> (nat \<times> exn) option \<Rightarrow> exn option \<times> entries"
where
  "extractall fs target members f =
     (case map_of fs target of
        Some (Dir c) \<Rightarrow>
          (case extract_all members f c of
             (r, c') \<Rightarrow> (r, set_entry fs target (Dir c')))
      | _ \<Rightarrow> (Some (Exn OSError ''Not a directory''), fs))"

text \<open>
  \<^verbatim>\<open>shutil.move(str(temp_extract_path / plugin_id), str(install_path))\<close>: a rename when the
  destination is free; into the destination when that is a directory; over it when source
  and destination are files.
\<close>

definition move_into_place :: "entries \<Rightarrow> string \<Rightarrow> string \<Rightarrow> exn + entries" where
  "move_into_place fs temp_extract pid =
     (case map_of fs temp_extract of
        Some (Dir c) \<Rightarrow>
          (case map_of c pid of
             None \<Rightarrow> Inl (Exn OSError ''No such file or directory'')
           | Some nd \<Rightarrow>
               (let fs' = set_entry fs temp_extract (Dir (del_entry c pid))
                in case map_of fs pid of
                     None \<Rightarrow> Inr (fs' @ [(pid, nd)])
                   | Some (Dir d) \<Rightarrow>
                       (if path_exists d pid
                        then Inl (Exn OSError ''Destination path already exists'')
                        else Inr (set_entry fs' pid (Dir (d @ [(pid, nd)]))))
                   | Some (File old) \<Rightarrow>
                       (case nd of
                          File x \<Rightarrow> Inr (set_entry fs' pid nd)
                        | Dir x \<Rightarrow> Inl (Exn OSError ''Not a directory''))))
      | _ \<Rightarrow> Inl (Exn OSError ''No such file or directory''))"

text \<open>Lines 187 to 198: the choice between the two layouts, and the extraction.\<close>

definition install_extract ::
  "entries \<Rightarrow> string \<Rightarrow> zip_member list \<Rightarrow> (nat \<times> exn) option \<Rightarrow> exn option \<times> entries"
where
  "install_extract fs pid members f =
     (let tops = top_level_members members
      in if length tops = 1 \<and> rstrip_slash (hd tops) = pid then
           (let temp_extract_path = pid @ ''_temp_extract''
            in case mkdir_exist_ok fs temp_extract_path of
                 Inl e \<Rightarrow> (Some e, fs)
               | Inr fs1 \<Rightarrow>
                   (case extractall fs1 temp_extract_path members f of
                      (Some e, fs2) \<Rightarrow> (Some e, fs2)
                    | (None, fs2) \<Rightarrow>
                        (case move_into_place fs2 temp_extract_path pid of
                           Inl e \<Rightarrow> (Some e, fs2)
                         | Inr fs3 \<Rightarrow> (None, del_entry fs3 temp_extract_path))))
         else
           (case mkdir_exist_ok fs pid of
              Inl e \<Rightarrow> (Some e, fs)
            | Inr fs1 \<Rightarrow> extractall fs1 pid members f))"

text \<open>The \<^verbatim>\<open>try\<close> block, lines 177 to 203; \<open>None\<close> is \<^verbatim>\<open>return True\<close>.\<close>

definition install_try ::
  "string \<Rightarrow> entries \<Rightarrow> plugin_info \<Rightarrow> callback option \<Rightarrow> install_env
     \<Rightarrow> exn option \<times> entries \<times> event list"
where
  "install_try plugin_dir fs info cb env =
     (let pid = plugin_id info;
          temp_zip_path = pid @ ''_temp.zip'';
          tr1 = status_update cb (''Downloading '' @ download_url info @ ''...'') (Some ''info'')
      in case download env of
           Inl e \<Rightarrow> (Some e, fs, tr1)
         | Inr resp \<Rightarrow>
             (case raise_for_status resp of
                Some e \<Rightarrow> (Some e, fs, tr1)
              | None \<Rightarrow>
                  (if is_dir fs temp_zip_path then (Some (Exn OSError ''Is a directory''), fs, tr1)
                   else
                     (let content = concat (chunks resp);
                          fs1 = set_entry fs temp_zip_path (File content)
                      in case stream_error resp of
                           Some e \<Rightarrow> (Some e, fs1, tr1)
                         | None \<Rightarrow>
                             (let tr2 = tr1 @ status_update cb ''Download complete.'' (Some ''info'')
                                        @ status_update cb
                                            (''Extracting to '' @ plugin_dir @ ''/'' @ pid @ ''...'')
                                            (Some ''info'')
                              in case read_zip env content of
                                   None \<Rightarrow> (Some (Exn BadZipFile ''File is not a zip file''), fs1, tr2)
                                 | Some members \<Rightarrow>
                                     (case install_extract fs1 pid members (extract_fails env) of
                                        (Some e, fs2) \<Rightarrow> (Some e, fs2, tr2)
                                      | (None, fs2) \<Rightarrow>
                                          (None, fs2,
                                           tr2 @ status_update cb
                                                   (''Plugin '' @ quoted (plugin_name info)
                                                      @ '' installed successfully to '' @ plugin_dir
                                                      @ ''/'' @ pid @ ''.'') (Some ''info'')
                                               @ status_update cb
                                                   ''Please restart EDMC for the new plugin to be loaded.''
                                                   (Some ''warning''))))))))"

text \<open>
  The handlers, lines 204 to 216.  Only the last one, for an exception that is none of
  the three named classes, removes the install directory.
\<close>

definition install_except ::
  "entries \<Rightarrow> string \<Rightarrow> callback option \<Rightarrow> exn \<Rightarrow> entries \<times> event list"
where
  "install_except fs pid cb e =
     (if exn_kind e = RequestException then
        (fs, status_update cb (''Network error downloading plugin: '' @ exn_text e) (Some ''error''))
      else if exn_kind e = BadZipFile then
        (fs, status_update cb ''Failed to install plugin: Downloaded file is not a valid ZIP.''
               (Some ''error''))
      else if exn_kind e = OSError then
        (fs, status_update cb (''File system error installing plugin: '' @ exn_text e)
               (Some ''error''))
      else
        (let tr = status_update cb
                    (''An unexpected error occurred during plugin installation: '' @ exn_text e)
                    (Some ''error'')
         in if path_exists fs pid then
              (if is_dir fs pid then (del_entry fs pid, tr)
               else (fs, tr @ [Logged LogError
                                 (''Error cleaning up failed installation for '' @ pid
                                    @ '': Not a directory'')]))
            else (fs, tr)))"

text \<open>
  The \<^verbatim>\<open>finally\<close> clause, lines 217 to 219.  \<^verbatim>\<open>unlink\<close> removes a file and raises on a
  directory; what it raises leaves \<^verbatim>\<open>install_plugin\<close>.
\<close>

definition install_finally :: "entries \<Rightarrow> string \<Rightarrow> exn option \<times> entries" where
  "install_finally fs pid =
     (let temp_zip_path = pid @ ''_temp.zip''
      in if path_exists fs temp_zip_path then
           (if is_dir fs temp_zip_path then (Some (Exn OSError ''Is a directory''), fs)
            else (None, del_entry fs temp_zip_path))
         else (None, fs))"

text \<open>
  \<^verbatim>\<open>install_plugin\<close>: \<open>Inr\<close> is the value returned, \<open>Inl\<close> an exception that reaches the
  caller.
\<close>

definition install_conflict_message :: "plugin_info \<Rightarrow> string" where
  "install_conflict_message info =
     ''Plugin '' @ quoted (plugin_name info) @ '' (folder: '' @ plugin_id info
       @ '') already exists or is disabled. Please remove it first.''"

definition install_plugin ::
  "string \<Rightarrow> entries \<Rightarrow> plugin_info \<Rightarrow> callback option \<Rightarrow> install_env
     \<Rightarrow> (exn + bool) \<times> entries \<times> event list"
where
  "install_plugin plugin_dir fs info cb env =
     (let pid = plugin_id info;
          tr0 = status_update cb
                  (''Installing plugin '' @ quoted (plugin_name info) @ '' from ''
                     @ download_url info @ ''...'') (Some ''info'');
          refused = (Inr False, fs,
                     tr0 @ status_update cb (install_conflict_message info) (Some ''error''))
      in if path_exists fs pid then refused
         else
           (case name_with_suffix pid (name_suffix pid @ disabled_suffix) of
              Inl e \<Rightarrow> (Inl e, fs, tr0)
            | Inr sibling \<Rightarrow>
                (if path_exists fs sibling then refused
                 else
                   (case install_try plugin_dir fs info cb env of
                      (None, fs1, tr) \<Rightarrow>
                        (case install_finally fs1 pid of
                           (None, fs2) \<Rightarrow> (Inr True, fs2, tr0 @ tr)
                         | (Some e', fs2) \<Rightarrow> (Inl e', fs2, tr0 @ tr))
                    | (Some e, fs1, tr) \<Rightarrow>
                        (case install_except fs1 pid cb e of
                           (fs2, tr') \<Rightarrow>
                             (case install_finally fs2 pid of
                                (None, fs3) \<Rightarrow> (Inr False, fs3, tr0 @ tr @ tr')
                              | (Some e', fs3) \<Rightarrow> (Inl e', fs3, tr0 @ tr @ tr')))))))"

section \<open>Notions of the specification\<close>

text \<open>
  A manifest entry is well formed when it is a JSON object with the six required keys.
  The optional keys default to null when absent.
\<close>

definition is_obj :: "json \<Rightarrow> bool" where
  "is_obj e = (case e of JObj kvs \<Rightarrow> True | _ \<Rightarrow> False)"

definition has_required_fields :: "json \<Rightarrow> bool" where
  "has_required_fields e =
     (case e of JObj kvs \<Rightarrow> list_all (\<lambda>k. k \<in> set (map fst kvs)) required_keys | _ \<Rightarrow> False)"

definition add_default :: "(string \<times> json) list \<Rightarrow> string \<Rightarrow> (string \<times> json) list" where
  "add_default kvs k = (if k \<in> set (map fst kvs) then kvs else kvs @ [(k, JNull)])"

definition with_defaults :: "json \<Rightarrow> json" where
  "with_defaults e =
     (case e of
        JObj kvs \<Rightarrow> JObj (add_default (add_default kvs ''edmcCompatibility'') ''repositoryUrl'')
      | _ \<Rightarrow> e)"

definition http_error_status :: "nat \<Rightarrow> bool" where
  "http_error_status c = (400 \<le> c \<and> c < 600)"

text \<open>Sample data for the concrete instances below.\<close>

definition sample_plugin :: json where
  "sample_plugin = JObj [(''id'', JStr ''P''), (''name'', JStr ''n''), (''version'', JStr ''1''),
     (''author'', JStr ''a''), (''description'', JStr ''d''), (''downloadUrl'', JStr ''u'')]"

definition no_render :: "json \<Rightarrow> string" where
  "no_render j = []"

text \<open>
  The failures the fetcher turns into an empty result: the request raises, the status is
  one that \<^verbatim>\<open>raise_for_status\<close> rejects, the body is not JSON, or its root is not a list.
\<close>

definition fetch_fails :: "exn + json_response \<Rightarrow> bool" where
  "fetch_fails answer =
     (case answer of
        Inl e \<Rightarrow> True
      | Inr r \<Rightarrow>
          http_error_status (status_code r)
          \<or> (case json_body r of Inl e \<Rightarrow> True | Inr (JList xs) \<Rightarrow> False | Inr _ \<Rightarrow> True))"

text \<open>
  The scanner in the words of the specification: a child qualifies when it is a
  directory with a file \<^verbatim>\<open>load.py\<close> at its top level; a qualifying child whose name ends
  in the disabled suffix is reported as disabled under the name without the suffix, any
  other as enabled under its own name.
\<close>

definition qualifies :: "string \<times> node \<Rightarrow> bool" where
  "qualifies item = (case snd item of Dir children \<Rightarrow> is_file children ''load.py'' | File d \<Rightarrow> False)"

definition classify :: "string \<times> node \<Rightarrow> installed_plugin_info" where
  "classify item =
     (if endswith (fst item) disabled_suffix
      then \<lparr>ip_name = take (length (fst item) - length disabled_suffix) (fst item),
            ip_status = ''disabled'', ip_path = fst item\<rparr>
      else \<lparr>ip_name = fst item, ip_status = ''enabled'', ip_path = fst item\<rparr>)"

definition sample_dir :: pure_path where
  "sample_dir = \<lparr>anchor = ''/'', parts = [''plugins'']\<rparr>"




definition sample_info :: plugin_info where
  "sample_info = \<lparr>plugin_id = ''P'', plugin_name = ''N'', download_url = ''u''\<rparr>"

text \<open>A download that succeeds and decodes to the given archive.\<close>

definition archive_env :: "zip_member list \<Rightarrow> (nat \<times> exn) option \<Rightarrow> install_env" where
  "archive_env members f =
     \<lparr>download = Inr \<lparr>status_code = 200, chunks = [''zip''], stream_error = None\<rparr>,
      read_zip = (\<lambda>bytes. Some members),
      extract_fails = f\<rparr>"

definition raising_callback :: callback where
  "raising_callback message msg_type = Some (Exn OtherException ''boom'')"

section \<open>Properties of the manifest fetcher\<close>

lemma all_keys_in_obj:
  "all_keys_in (JObj kvs) ks = Inr (list_all (\<lambda>k. k \<in> set (map fst kvs)) ks)"
  by (induction ks) (auto split: bool.splits)

lemma setdefault_obj: "setdefault (JObj kvs) k JNull = Inr (JObj (add_default kvs k))"
  by (simp add: add_default_def)

lemma validate_entries_objects:
  "list_all is_obj entries \<Longrightarrow>
   \<exists>tr'. validate_entries render entries valid tr =
     (Inr (valid @ map with_defaults (filter has_required_fields entries)), tr')"
proof (induction entries arbitrary: valid tr)
  case Nil
  then show ?case by simp
next
  case (Cons e es)
  from Cons.prems obtain kvs where e: "e = JObj kvs"
    by (cases e) (auto simp: is_obj_def)
  from Cons.prems have es: "list_all is_obj es" by simp
  show ?case
  proof (cases "list_all (\<lambda>k. k \<in> set (map fst kvs)) required_keys")
    case True
    then have hr: "has_required_fields e" by (simp add: e has_required_fields_def)
    have step: "validate_entries render (e # es) valid tr
                = validate_entries render es (valid @ [with_defaults e]) tr"
      using True
      by (simp add: e all_keys_in_obj setdefault_obj with_defaults_def del: setdefault.simps)
    from Cons.IH[OF es, of "valid @ [with_defaults e]" tr] hr show ?thesis
      unfolding step by simp
  next
    case False
    then have hr: "\<not> has_required_fields e" by (simp add: e has_required_fields_def)
    have step: "validate_entries render (e # es) valid tr
                = validate_entries render es valid
                    (tr @ [Logged LogWarning (''Skipping invalid plugin entry in manifest: ''
                       @ render (case map_of kvs ''id'' of Some v \<Rightarrow> v
                                 | None \<Rightarrow> JStr ''Unknown ID''))])"
      using False by (simp add: e all_keys_in_obj)
    from Cons.IH[OF es] hr show ?thesis
      unfolding step by simp
  qed
qed

text \<open>
  For a manifest whose root is a list of JSON objects, fetched from a configured URL
  with a status that \<^verbatim>\<open>raise_for_status\<close> accepts, the fetch returns exactly the entries
  that have all six required keys, in the order of the source list, each with the two
  optional keys defaulted to null; an object that lacks a required key is skipped and the
  others are still returned.
\<close>

lemma fetch_valid_entries_in_order:
  assumes "manifest_url \<noteq> []" and "\<not> http_error_status c" and "list_all is_obj entries"
  shows "fst (fetch_available_plugins render manifest_url cb
                (Inr \<lparr>status_code = c, json_body = Inr (JList entries)\<rparr>))
         = map with_defaults (filter has_required_fields entries)"
proof -
  from validate_entries_objects[OF assms(3), of render "[]" "[]"] obtain tr' where
    v: "validate_entries render entries [] [] =
       (Inr (map with_defaults (filter has_required_fields entries)), tr')" by auto
  have r: "raise_for_status \<lparr>status_code = c, json_body = Inr (JList entries)\<rparr> = None"
    using assms(2) by (auto simp: raise_for_status_def http_error_status_def)
  have "fst (fetch_try render cb (Inr \<lparr>status_code = c, json_body = Inr (JList entries)\<rparr>))
        = Inr (map with_defaults (filter has_required_fields entries))"
    by (simp add: fetch_try_def r v)
  with assms(1) show ?thesis
    by (auto simp: fetch_available_plugins_def Let_def split: prod.splits sum.splits)
qed

lemma fetch_object_entries_example:
  "fst (fetch_available_plugins no_render ''u'' None
          (Inr \<lparr>status_code = 200, json_body = Inr (JList [sample_plugin, JObj []])\<rparr>))
   = [with_defaults sample_plugin]"
  using fetch_valid_entries_in_order[of "''u''" 200 "[sample_plugin, JObj []]" no_render None]
  by (simp add: http_error_status_def is_obj_def sample_plugin_def has_required_fields_def
      required_keys_def)

text \<open>
  C5 at a manifest with one well-formed entry and one entry that is not an object (a
  string, which lacks every required field): the loop enters its branch for skipping
  the entry, \<^verbatim>\<open>plugin_entry.get\<close> on line 107 raises there, and the whole fetch returns the
  empty list with an error status instead of the one well-formed entry.
\<close>

theorem fetch_non_object_entry_loses_whole_manifest:
  "fst (fetch_available_plugins no_render ''u'' None
          (Inr \<lparr>status_code = 200, json_body = Inr (JList [sample_plugin, JStr ''oops''])\<rparr>)) = []
   \<and> reports_error (snd (fetch_available_plugins no_render ''u'' None
          (Inr \<lparr>status_code = 200, json_body = Inr (JList [sample_plugin, JStr ''oops''])\<rparr>)))
   \<and> all_keys_in (JStr ''oops'') required_keys = Inr False
   \<and> filter has_required_fields [sample_plugin, JStr ''oops''] = [sample_plugin]"
  by (simp add: fetch_available_plugins_def fetch_try_def raise_for_status_def sample_plugin_def
      has_required_fields_def required_keys_def Let_def reports_error_def fetch_handler_def
      status_update_def)

lemma reports_error_status_update [simp]:
  "reports_error (status_update cb m (Some ''error''))"
  by (auto simp: reports_error_def status_update_def split: option.splits)

lemma reports_error_append [simp]:
  "reports_error (a @ b) \<longleftrightarrow> reports_error a \<or> reports_error b"
  by (auto simp: reports_error_def list_ex_iff)

lemma reports_error_fetch_handler [simp]: "reports_error (fetch_handler cb e)"
  by (simp add: fetch_handler_def)

lemma fetch_try_fails:
  "fetch_fails got \<Longrightarrow>
   (\<exists>e tr. fetch_try render cb got = (Inl e, tr))
   \<or> (\<exists>tr. fetch_try render cb got = (Inr [], tr) \<and> reports_error tr)"
  by (auto simp: fetch_fails_def fetch_try_def raise_for_status_def http_error_status_def
      split: sum.splits json.splits)

text \<open>
  C6, as amended.  The fetch returns a value on every input: each exception of the
  \<^verbatim>\<open>try\<close> block reaches a handler.  When the URL is not configured, the request raises,
  the status is an HTTP error status (400 to 599, the ones \<^verbatim>\<open>raise_for_status\<close> rejects),
  the body is not JSON or its root is not a list, the result is the empty list and an
  error-severity status is reported.
\<close>

theorem fetch_fails_soft:
  assumes "manifest_url = [] \<or> fetch_fails got"
  shows "fst (fetch_available_plugins render manifest_url cb got) = []
         \<and> reports_error (snd (fetch_available_plugins render manifest_url cb got))"
proof (cases "manifest_url = []")
  case True
  then show ?thesis by (simp add: fetch_available_plugins_def)
next
  case False
  with assms have "fetch_fails got" by simp
  from fetch_try_fails[OF this, of render cb] False show ?thesis
    by (auto simp: fetch_available_plugins_def Let_def)
qed

theorem fetch_fails_soft_witness:
  "fst (fetch_available_plugins no_render ''u'' None
         (Inr \<lparr>status_code = 404, json_body = Inr (JList [sample_plugin])\<rparr>)) = []
   \<and> reports_error (snd (fetch_available_plugins no_render ''u'' None
         (Inr \<lparr>status_code = 404, json_body = Inr (JList [sample_plugin])\<rparr>)))"
  using fetch_fails_soft[of "''u''" "Inr \<lparr>status_code = 404, json_body = Inr (JList [sample_plugin])\<rparr>"
       no_render None]
  by (simp add: fetch_fails_def http_error_status_def)

text \<open>
  C6 as stated fails for a status outside 2xx that is not an HTTP error status: with
  status 300 and a manifest in the body the fetch returns the plugins and reports no
  error.
\<close>

theorem fetch_redirect_status_counterexample:
  "fst (fetch_available_plugins no_render ''u'' None
         (Inr \<lparr>status_code = 300, json_body = Inr (JList [sample_plugin])\<rparr>))
     = [with_defaults sample_plugin]
   \<and> \<not> reports_error (snd (fetch_available_plugins no_render ''u'' None
         (Inr \<lparr>status_code = 300, json_body = Inr (JList [sample_plugin])\<rparr>)))"
  by (simp add: fetch_available_plugins_def fetch_try_def raise_for_status_def sample_plugin_def
      with_defaults_def add_default_def required_keys_def Let_def reports_error_def
      status_update_def)

section \<open>Properties of the scanner\<close>

lemma scan_item_spec:
  "fst (scan_item item) = (if qualifies item then [classify item] else [])"
  by (cases item; cases "snd item")
     (auto simp: scan_item_def qualifies_def classify_def Let_def split: node.splits)

lemma scan_items_spec:
  "fst (scan_items items acc tr) = acc @ map classify (filter qualifies items)"
proof (induction items arbitrary: acc tr)
  case Nil
  then show ?case by simp
next
  case (Cons item rest)
  obtain found evs where s: "scan_item item = (found, evs)" by (cases "scan_item item")
  with scan_item_spec[of item] have "found = (if qualifies item then [classify item] else [])"
    by simp
  with Cons.IH[of "acc @ found" "tr @ evs"] s show ?case by simp
qed

text \<open>
  C8.  The scan returns one entry for each child of the plugin root that is a directory
  with \<^verbatim>\<open>load.py\<close> at its top level, in the order of the directory listing: disabled with
  the suffix stripped when the name ends in the disabled suffix, enabled under its own
  name otherwise; other children are left out.  A missing plugin root gives the empty
  list and one warning.
\<close>

theorem scan_reports_plugin_directories:
  "fst (get_installed_plugins plugin_dir (Some (Dir items))) = map classify (filter qualifies items)
   \<and> get_installed_plugins plugin_dir None
       = ([], [Logged LogWarning (''Plugin directory not found: '' @ plugin_dir)])"
  by (simp add: get_installed_plugins_def scan_items_spec)


section \<open>Properties of the path construction\<close>

lemma rfind_Some:
  assumes "rfind c s = Some i"
  shows "i < length s \<and> s ! i = c"
proof -
  let ?k = "length (takeWhile (\<lambda>x. x \<noteq> c) (rev s))"
  from assms have k: "?k \<noteq> length s" and i: "i = length s - 1 - ?k"
    by (auto simp: rfind_def Let_def split: if_splits)
  have "?k \<le> length (rev s)" by (rule length_takeWhile_le)
  with k have lt: "?k < length (rev s)" by simp
  then have "\<not> (rev s ! ?k \<noteq> c)" by (rule nth_length_takeWhile)
  then have "rev s ! ?k = c" by simp
  moreover from lt have "rev s ! ?k = s ! (length s - Suc ?k)" by (simp add: rev_nth)
  ultimately show ?thesis using lt i by simp
qed

lemma name_suffix_cases:
  "name_suffix nm = [] \<or> (\<exists>i. 0 < i \<and> i < length nm \<and> nm ! i = CHR ''.'' \<and> name_suffix nm = drop i nm)"
  using rfind_Some[of "CHR ''.''" nm]
  by (auto simp: name_suffix_def split: option.splits)

lemma name_with_suffix_disabled:
  assumes "nm \<noteq> []" and "CHR ''/'' \<notin> set nm"
  shows "name_with_suffix nm (name_suffix nm @ ''.disabled'') = Inr (nm @ ''.disabled'')"
proof -
  from name_suffix_cases[of nm] show ?thesis
  proof
    assume "name_suffix nm = []"
    with assms show ?thesis by (simp add: name_with_suffix_def)
  next
    assume "\<exists>i. 0 < i \<and> i < length nm \<and> nm ! i = CHR ''.'' \<and> name_suffix nm = drop i nm"
    then obtain i where i: "0 < i" "i < length nm" "nm ! i = CHR ''.''"
      and s: "name_suffix nm = drop i nm" by blast
    from Cons_nth_drop_Suc[OF i(2)] have "drop i nm = nm ! i # drop (Suc i) nm" by simp
    with i(3) have hd: "take 1 (drop i nm) = ''.''" by simp
    from i have ne: "drop i nm \<noteq> []" by simp
    from assms(2) have nos: "CHR ''/'' \<notin> set (drop i nm)" by (meson in_set_dropD)
    have len: "length nm - length (drop i nm) = i" using i by simp
    have "take i nm @ drop i nm = nm" by simp
    with assms hd ne nos len show ?thesis
      by (auto simp: name_with_suffix_def s Let_def)
  qed
qed

lemma split_on_no_sep: "c \<notin> set s \<Longrightarrow> split_on c s = [s]"
  by (induction s) auto

lemma parse_path_segment:
  assumes "path_segment s"
  shows "parse_path s = \<lparr>anchor = [], parts = [s]\<rparr>"
proof -
  from assms have ne: "s \<noteq> []" and ns: "CHR ''/'' \<notin> set s" and nd: "s \<noteq> ''.''"
    by (auto simp: path_segment_def)
  from ne ns have "take 1 s \<noteq> ''/''" by (cases s) auto
  moreover from ne ns have "take 2 s \<noteq> ''//''" by (cases s) auto
  ultimately show ?thesis using ne nd by (simp add: parse_path_def split_on_no_sep[OF ns])
qed

lemma path_segment_disabled: "path_segment s \<Longrightarrow> path_segment (s @ ''.disabled'')"
  by (auto simp: path_segment_def)

text \<open>
  C4, as amended.  For every plugin id that is a single path component (not empty,
  without a slash, not a single dot), the path that line 169 builds with
  \<^verbatim>\<open>with_suffix(install_path.suffix + ".disabled")\<close> is the path obtained by appending
  \<^verbatim>\<open>.disabled\<close> to the id: the suffix is not doubled.
\<close>

theorem disabled_sibling_refines_spec:
  assumes "path_segment pid"
  shows "install_disabled_path plugin_dir pid = Inr (disabled_sibling_spec plugin_dir pid)"
proof -
  from assms have ne: "pid \<noteq> []" and ns: "CHR ''/'' \<notin> set pid"
    by (auto simp: path_segment_def)
  have j: "joinpath plugin_dir pid = plugin_dir\<lparr>parts := parts plugin_dir @ [pid]\<rparr>"
    by (simp add: joinpath_def parse_path_segment[OF assms])
  have j': "joinpath plugin_dir (pid @ ''.disabled'')
            = plugin_dir\<lparr>parts := parts plugin_dir @ [pid @ ''.disabled'']\<rparr>"
    by (simp add: joinpath_def parse_path_segment[OF path_segment_disabled[OF assms]])
  show ?thesis
    by (simp add: install_disabled_path_def disabled_sibling_spec_def j j' Let_def with_suffix_def
        suffix_def path_name_def name_with_suffix_disabled[OF ne ns])
qed


theorem disabled_sibling_refines_spec_witness:
  "install_disabled_path sample_dir ''My.Plugin''
   = Inr \<lparr>anchor = ''/'', parts = [''plugins'', ''My.Plugin.disabled'']\<rparr>"
  using disabled_sibling_refines_spec[of "''My.Plugin''" sample_dir]
  by (simp add: path_segment_def disabled_sibling_spec_def joinpath_def parse_path_def sample_dir_def)

text \<open>
  C4 as stated, for every id string, fails: for the id \<^verbatim>\<open>a/\<close> the install path is
  \<^verbatim>\<open>plugins/a\<close> and line 169 builds \<^verbatim>\<open>plugins/a.disabled\<close>, while appending to the id gives
  \<^verbatim>\<open>plugins/a/.disabled\<close>.
\<close>

theorem disabled_sibling_trailing_slash_counterexample:
  "install_disabled_path sample_dir ''a/'' = Inr \<lparr>anchor = ''/'', parts = [''plugins'', ''a.disabled'']\<rparr>
   \<and> disabled_sibling_spec sample_dir ''a/'' = \<lparr>anchor = ''/'', parts = [''plugins'', ''a'', ''.disabled'']\<rparr>"
  by (simp add: install_disabled_path_def disabled_sibling_spec_def joinpath_def parse_path_def
      sample_dir_def with_suffix_def suffix_def path_name_def name_with_suffix_def name_suffix_def
      rfind_def Let_def)

section \<open>Properties of the file system operations\<close>




lemma map_of_snoc:
  "map_of (fs @ [(n, v)]) m = (case map_of fs m of Some x \<Rightarrow> Some x | None \<Rightarrow> if m = n then Some v else None)"
  by (auto simp: map_add_def split: option.splits)







section \<open>Properties of install\<close>

lemma install_refuses:
  assumes "path_exists fs (plugin_id info) \<or> path_exists fs (plugin_id info @ ''.disabled'')"
    and "plugin_id info \<noteq> []" and "CHR ''/'' \<notin> set (plugin_id info)"
  shows "install_plugin plugin_dir fs info cb env
         = (Inr False, fs,
            status_update cb (''Installing plugin '' @ quoted (plugin_name info) @ '' from ''
                     @ download_url info @ ''...'') (Some ''info'')
            @ status_update cb (install_conflict_message info) (Some ''error''))"
  using assms name_with_suffix_disabled[OF assms(2,3)]
  by (auto simp: install_plugin_def Let_def disabled_suffix_def)

text \<open>
  C1.  For every plugin record whose id is one path component: if the folder of that
  name or its sibling with the disabled suffix exists in the plugin root, the install
  returns false, reports an error status and leaves the plugin root as it was.
\<close>

theorem install_conflict_changes_nothing:
  assumes "path_segment (plugin_id info)"
    and "path_exists fs (plugin_id info) \<or> path_exists fs (plugin_id info @ ''.disabled'')"
  shows "\<exists>tr. install_plugin plugin_dir fs info cb env = (Inr False, fs, tr) \<and> reports_error tr"
proof -
  from assms(1) have "plugin_id info \<noteq> []" "CHR ''/'' \<notin> set (plugin_id info)"
    by (auto simp: path_segment_def)
  from install_refuses[OF assms(2) this] show ?thesis by simp
qed











section \<open>Properties of enable, disable and remove\<close>









section \<open>The status callback\<close>

lemma install_try_cb:
  "fst (install_try plugin_dir fs info cb env) = fst (install_try plugin_dir fs info None env)
   \<and> fst (snd (install_try plugin_dir fs info cb env)) = fst (snd (install_try plugin_dir fs info None env))"
  by (simp add: install_try_def Let_def split: sum.splits option.splits prod.splits)

lemma install_except_cb:
  "fst (install_except fs pid cb e) = fst (install_except fs pid None e)"
  by (simp add: install_except_def Let_def)

lemma install_cb:
  "fst (install_plugin plugin_dir fs info cb env) = fst (install_plugin plugin_dir fs info None env)
   \<and> fst (snd (install_plugin plugin_dir fs info cb env))
       = fst (snd (install_plugin plugin_dir fs info None env))"
proof -
  obtain r fs1 tr where t: "install_try plugin_dir fs info cb env = (r, fs1, tr)"
    by (cases "install_try plugin_dir fs info cb env")
  obtain r' fs1' tr' where t': "install_try plugin_dir fs info None env = (r', fs1', tr')"
    by (cases "install_try plugin_dir fs info None env")
  from install_try_cb[of plugin_dir fs info cb env] t t' have eq: "r' = r" "fs1' = fs1" by simp_all
  show ?thesis
  proof (cases r)
    case None
    with t t' eq show ?thesis
      by (simp add: install_plugin_def Let_def split: sum.splits option.splits prod.splits)
  next
    case (Some e)
    obtain fs2 tr2 where x: "install_except fs1 (plugin_id info) cb e = (fs2, tr2)"
      by (cases "install_except fs1 (plugin_id info) cb e")
    obtain fs2' tr2' where x': "install_except fs1 (plugin_id info) None e = (fs2', tr2')"
      by (cases "install_except fs1 (plugin_id info) None e")
    from install_except_cb[of fs1 "plugin_id info" cb e] x x' have "fs2' = fs2" by simp
    with Some t t' eq x x' show ?thesis
      by (simp add: install_plugin_def Let_def split: sum.splits option.splits prod.splits)
  qed
qed

lemma fetch_cb:
  "fst (fetch_available_plugins render u cb a) = fst (fetch_available_plugins render u None a)"
  by (simp add: fetch_available_plugins_def fetch_try_def Let_def
      split: sum.splits option.splits prod.splits json.splits)

lemma remove_cb:
  "fst (remove_plugin fs f cb rmf) = fst (remove_plugin fs f None rmf)
   \<and> fst (snd (remove_plugin fs f cb rmf)) = fst (snd (remove_plugin fs f None rmf))"
  by (simp add: remove_plugin_def Let_def split: option.splits prod.splits)

lemma enable_cb:
  "fst (enable_plugin fs b cb rf) = fst (enable_plugin fs b None rf)
   \<and> fst (snd (enable_plugin fs b cb rf)) = fst (snd (enable_plugin fs b None rf))"
  by (simp add: enable_plugin_def Let_def split: option.splits)

lemma disable_cb:
  "fst (disable_plugin fs b cb rf) = fst (disable_plugin fs b None rf)
   \<and> fst (snd (disable_plugin fs b cb rf)) = fst (snd (disable_plugin fs b None rf))"
  by (simp add: disable_plugin_def Let_def split: option.splits)


theorem install_conflict_changes_nothing_witness:
  "\<exists>tr. install_plugin ''/plugins'' [(''P.disabled'', Dir [])] sample_info None
          (archive_env [] None) = (Inr False, [(''P.disabled'', Dir [])], tr) \<and> reports_error tr"
  using install_conflict_changes_nothing[of sample_info "[(''P.disabled'', Dir [])]" "''/plugins''"
      None "archive_env [] None"]
  by (simp add: sample_info_def path_segment_def path_exists_def)





text \<open>
  C10.  A status callback that raises is caught inside \<^verbatim>\<open>_status_update\<close> and the
  exception is logged; without a callback the message goes to the logger at the level of
  its severity.  For fetch, install, remove, enable and disable, the value returned and
  the plugin root afterwards do not depend on the callback, whatever it does.
\<close>

theorem status_callback_cannot_alter_result:
  "(cb m t = Some e \<longrightarrow>
      status_update (Some cb) m t
        = [Called m t, Logged LogError (''Error in status callback: '' @ exn_text e)])
   \<and> status_update None m (Some ''error'') = [Logged LogError m]
   \<and> status_update None m (Some ''warning'') = [Logged LogWarning m]
   \<and> status_update None m (Some ''info'') = [Logged LogInfo m]
   \<and> fst (fetch_available_plugins render u cb1 a) = fst (fetch_available_plugins render u cb2 a)
   \<and> fst (install_plugin plugin_dir fs info cb1 env) = fst (install_plugin plugin_dir fs info cb2 env)
   \<and> fst (snd (install_plugin plugin_dir fs info cb1 env))
       = fst (snd (install_plugin plugin_dir fs info cb2 env))
   \<and> fst (remove_plugin fs f cb1 rmf) = fst (remove_plugin fs f cb2 rmf)
   \<and> fst (snd (remove_plugin fs f cb1 rmf)) = fst (snd (remove_plugin fs f cb2 rmf))
   \<and> fst (enable_plugin fs b cb1 rf) = fst (enable_plugin fs b cb2 rf)
   \<and> fst (snd (enable_plugin fs b cb1 rf)) = fst (snd (enable_plugin fs b cb2 rf))
   \<and> fst (disable_plugin fs b cb1 rf) = fst (disable_plugin fs b cb2 rf)
   \<and> fst (snd (disable_plugin fs b cb1 rf)) = fst (snd (disable_plugin fs b cb2 rf))"
proof -
  have "status_update None m (Some ''error'') = [Logged LogError m]"
    "status_update None m (Some ''warning'') = [Logged LogWarning m]"
    "status_update None m (Some ''info'') = [Logged LogInfo m]"
    "cb m t = Some e \<longrightarrow>
      status_update (Some cb) m t
        = [Called m t, Logged LogError (''Error in status callback: '' @ exn_text e)]"
    by (simp_all add: status_update_def)
  moreover have "fst (fetch_available_plugins render u cb1 a) = fst (fetch_available_plugins render u cb2 a)"
    using fetch_cb[of render u cb1 a] fetch_cb[of render u cb2 a] by simp
  moreover have "fst (install_plugin plugin_dir fs info cb1 env) = fst (install_plugin plugin_dir fs info cb2 env)"
    "fst (snd (install_plugin plugin_dir fs info cb1 env)) = fst (snd (install_plugin plugin_dir fs info cb2 env))"
    using install_cb[of plugin_dir fs info cb1 env] install_cb[of plugin_dir fs info cb2 env] by simp_all
  moreover have "fst (remove_plugin fs f cb1 rmf) = fst (remove_plugin fs f cb2 rmf)"
    "fst (snd (remove_plugin fs f cb1 rmf)) = fst (snd (remove_plugin fs f cb2 rmf))"
    using remove_cb[of fs f cb1 rmf] remove_cb[of fs f cb2 rmf] by simp_all
  moreover have "fst (enable_plugin fs b cb1 rf) = fst (enable_plugin fs b cb2 rf)"
    "fst (snd (enable_plugin fs b cb1 rf)) = fst (snd (enable_plugin fs b cb2 rf))"
    using enable_cb[of fs b cb1 rf] enable_cb[of fs b cb2 rf] by simp_all
  moreover have "fst (disable_plugin fs b cb1 rf) = fst (disable_plugin fs b cb2 rf)"
    "fst (snd (disable_plugin fs b cb1 rf)) = fst (snd (disable_plugin fs b cb2 rf))"
    using disable_cb[of fs b cb1 rf] disable_cb[of fs b cb2 rf] by simp_all
  ultimately show ?thesis by simp
qed

theorem status_callback_cannot_alter_result_witness:
  "status_update (Some raising_callback) ''msg'' (Some ''info'')
     = [Called ''msg'' (Some ''info''), Logged LogError ''Error in status callback: boom'']
   \<and> fst (enable_plugin [(''P.disabled'', Dir [])] ''P'' (Some raising_callback) None)
   \<and> fst (snd (enable_plugin [(''P.disabled'', Dir [])] ''P'' (Some raising_callback) None))
       = [(''P'', Dir [])]"
  using status_callback_cannot_alter_result[where cb = raising_callback and m = "''msg''"
      and t = "Some ''info''" and e = "Exn OtherException ''boom''"
      and ?cb1.0 = "Some raising_callback" and ?cb2.0 = None
      and fs = "[(''P.disabled'', Dir [])]" and b = "''P''" and rf = None]
  by (simp add: raising_callback_def enable_plugin_def Let_def is_dir_def path_exists_def
      disabled_suffix_def rename_entry_def)

text \<open>
  C2 at an archive whose only member is a file named as the plugin id: the code takes
  the branch for a wrapping folder, moves the file into place and returns true; the
  install path is then a regular file, not a directory holding the archive contents.
\<close>

theorem install_single_file_archive_installs_a_file:
  "fst (install_plugin ''/plugins'' [(''X'', Dir [])] sample_info None
          (archive_env [\<lparr>filename = ''P'', data = ''x''\<rparr>] None)) = Inr True
   \<and> fst (snd (install_plugin ''/plugins'' [(''X'', Dir [])] sample_info None
          (archive_env [\<lparr>filename = ''P'', data = ''x''\<rparr>] None)))
       = [(''X'', Dir []), (''P'', File ''x'')]"
  by code_simp

text \<open>
  C3 at an extraction that fails with an \<^verbatim>\<open>OSError\<close> after the first member: the handler
  for \<^verbatim>\<open>OSError\<close> reports the error and removes nothing, so the install returns false and
  the partly filled install directory stays in the plugin root.
\<close>

theorem install_failed_extraction_leaves_directory:
  "fst (install_plugin ''/plugins'' [(''X'', Dir [])] sample_info None
          (archive_env [\<lparr>filename = ''load.py'', data = ''code''\<rparr>, \<lparr>filename = ''sub/a.py'', data = ''a''\<rparr>]
             (Some (1, Exn OSError ''No space left on device'')))) = Inr False
   \<and> fst (snd (install_plugin ''/plugins'' [(''X'', Dir [])] sample_info None
          (archive_env [\<lparr>filename = ''load.py'', data = ''code''\<rparr>, \<lparr>filename = ''sub/a.py'', data = ''a''\<rparr>]
             (Some (1, Exn OSError ''No space left on device'')))))
       = [(''X'', Dir []), (''P'', Dir [(''load.py'', File ''code'')])]"
  by code_simp

section \<open>Further properties\<close>

text \<open>The name and the status that the scanner reports determine the folder.\<close>

lemma classify_disabled_name:
  "endswith n disabled_suffix \<Longrightarrow>
   ip_status (classify (n, x)) = ''disabled'' \<and> ip_name (classify (n, x)) @ disabled_suffix = n"
proof -
  assume e: "endswith n disabled_suffix"
  then have "take (length n - length disabled_suffix) n @ drop (length n - length disabled_suffix) n = n"
    by simp
  with e show ?thesis by (simp add: classify_def endswith_def)
qed

lemma classify_enabled_name:
  "\<not> endswith n disabled_suffix \<Longrightarrow>
   ip_status (classify (n, x)) = ''enabled'' \<and> ip_name (classify (n, x)) = n"
  by (simp add: classify_def)

text \<open>
  The layout without a wrapping folder: when the top-level names of the archive are not
  the plugin id alone and the install path is free, the install directory is created and
  holds what \<^verbatim>\<open>extractall\<close> makes of the archive in an empty directory.
\<close>

lemma set_entry_fresh_snoc:
  assumes "\<not> path_exists fs n"
  shows "set_entry (fs @ [(n, v)]) n w = fs @ [(n, w)]"
proof -
  from assms have "n \<notin> fst ` set fs" by (simp add: path_exists_def map_of_eq_None_iff)
  then have "map (\<lambda>(k, x). if k = n then (k, w) else (k, x)) fs = fs"
    by (induction fs) auto
  then show ?thesis by (simp add: set_entry_def path_exists_def)
qed

lemma install_extract_direct:
  assumes "\<not> (length (top_level_members ms) = 1 \<and> rstrip_slash (hd (top_level_members ms)) = pid)"
    and "\<not> path_exists fs pid"
  shows "install_extract fs pid ms f
         = (fst (extract_all ms f []), fs @ [(pid, Dir (snd (extract_all ms f [])))])"
proof -
  from assms(2) have m: "mkdir_exist_ok fs pid = Inr (fs @ [(pid, Dir [])])"
    by (simp add: mkdir_exist_ok_def path_exists_def)
  from assms(2) have l: "map_of (fs @ [(pid, Dir [])]) pid = Some (Dir [])"
    by (simp add: path_exists_def map_add_def)
  have "extractall (fs @ [(pid, Dir [])]) pid ms f
        = (fst (extract_all ms f []), fs @ [(pid, Dir (snd (extract_all ms f [])))])"
    unfolding extractall_def l
    by (simp add: set_entry_fresh_snoc[OF assms(2)] split: prod.splits)
  with assms(1) m show ?thesis
    by (auto simp: install_extract_def Let_def)
qed

text \<open>
  An archive that wraps its contents in a folder named as the plugin and an archive
  without wrapping folder install the same tree, without double nesting.
\<close>

lemma install_wrapped_archive_example:
  "fst (snd (install_plugin ''/plugins'' [(''X'', Dir [])] sample_info None
          (archive_env [\<lparr>filename = ''P/'', data = []\<rparr>, \<lparr>filename = ''P/load.py'', data = ''code''\<rparr>,
                        \<lparr>filename = ''P/lib/a.py'', data = ''a''\<rparr>] None)))
   = [(''X'', Dir []), (''P'', Dir [(''load.py'', File ''code''), (''lib'', Dir [(''a.py'', File ''a'')])])]"
  by code_simp

lemma install_flat_archive_example:
  "fst (snd (install_plugin ''/plugins'' [(''X'', Dir [])] sample_info None
          (archive_env [\<lparr>filename = ''load.py'', data = ''code''\<rparr>,
                        \<lparr>filename = ''lib/a.py'', data = ''a''\<rparr>] None)))
   = [(''X'', Dir []), (''P'', Dir [(''load.py'', File ''code''), (''lib'', Dir [(''a.py'', File ''a'')])])]"
  by code_simp

text \<open>
  The same failed extraction as above with an exception that is not an \<^verbatim>\<open>OSError\<close>: the
  last handler removes the install directory.
\<close>

lemma install_generic_failure_cleans_up_example:
  "fst (snd (install_plugin ''/plugins'' [(''X'', Dir [])] sample_info None
          (archive_env [\<lparr>filename = ''load.py'', data = ''code''\<rparr>, \<lparr>filename = ''sub/a.py'', data = ''a''\<rparr>]
             (Some (1, Exn OtherException ''unexpected'')))))
   = [(''X'', Dir [])]"
  by code_simp

text \<open>An install that gets past the check removes a stale archive of an earlier run.\<close>

lemma install_past_check_removes_stale_example:
  "fst (snd (install_plugin ''/plugins'' [(''P_temp.zip'', File ''stale'')] sample_info None
              (archive_env [\<lparr>filename = ''load.py'', data = ''code''\<rparr>] None)))
   = [(''P'', Dir [(''load.py'', File ''code'')])]"
  by code_simp

end
